theory Spec2Isabelle
  imports Complex_Main
begin

section \<open>Python values, exceptions and outcomes of a call\<close>

text \<open>
  The exceptions that the scheduling core of \<^verbatim>\<open>scheduler.py\<close> can raise. All of
  them are instances of Python's \<^verbatim>\<open>Exception\<close>, so an \<^verbatim>\<open>except Exception\<close> clause
  catches every one of them.
  \<^item> \<open>NameError n\<close>: the name \<open>n\<close> is read but bound neither locally nor in the module;
  \<^item> \<open>AttributeError n\<close>: the attribute \<open>n\<close> is read from an object that has none;
  \<^item> \<open>TypeError n\<close>: at \<open>n\<close>, a call with the wrong number of arguments, a call of a
    value that is not callable, or a comparison of a value that is not a number;
  \<^item> \<open>ContextManagerError\<close>: a \<^verbatim>\<open>with\<close> statement over an object without
    \<^verbatim>\<open>__enter__\<close>/\<^verbatim>\<open>__exit__\<close> (an AttributeError before Python 3.11, a TypeError since);
  \<^item> \<open>Empty\<close>: \<^verbatim>\<open>queue.Empty\<close>, raised by \<^verbatim>\<open>get_nowait\<close> on an empty queue;
  \<^item> \<open>ArgumentOutOfRange\<close>: \<^verbatim>\<open>Exception('Argument out of range')\<close>;
  \<^item> \<open>Fault k\<close>: the exception number \<open>k\<close> raised by user code.
\<close>

datatype error =
    NameError string
  | AttributeError string
  | TypeError string
  | ContextManagerError
  | Empty
  | ArgumentOutOfRange
  | Fault nat

text \<open>
  A call returns a value, raises, or does not return (it runs out of the fuel given to
  its loop, or blocks for ever). Every operation below yields its outcome together with
  the state it leaves behind, so that the effects of a call that raises are visible.
\<close>

datatype 'a outcome = Return 'a | Raise error | Diverges

section \<open>Scheduler.normalize\<close>

text \<open>
  \<^verbatim>\<open>
  def normalize(timeSpan):
    if timeSpan < 0:
      return 0
    else:
      return timeSpan
  \<close>
\<close>

definition normalize_timeSpan :: "real \<Rightarrow> real" where
  "normalize_timeSpan timeSpan = (if timeSpan < 0 then 0 else timeSpan)"

section \<open>ScheduledItem and the priority queue\<close>

text \<open>
  \<^verbatim>\<open>ScheduledItem(scheduler, state, action, dueTime, comparer)\<close>. The action is a
  callable of user code; it is named here by its number in a table of actions that the
  operations take as a parameter. The item's \<^verbatim>\<open>disposable\<close> is represented by its
  \<open>isDisposed\<close> flag, which is what \<^verbatim>\<open>isCancelled\<close> reads. The \<^verbatim>\<open>scheduler\<close> field
  is the scheduler whose state is passed along.
\<close>

record ('t, 'st) ScheduledItem =
  state :: 'st
  action :: nat
  dueTime :: 't
  item_comparer :: "'t \<Rightarrow> 't \<Rightarrow> int"
  isDisposed :: bool

definition isCancelled :: "('t, 'st) ScheduledItem \<Rightarrow> bool" where
  "isCancelled si = isDisposed si"

definition compareTo :: "('t, 'st) ScheduledItem \<Rightarrow> ('t, 'st) ScheduledItem \<Rightarrow> int" where
  "compareTo si other = item_comparer si (dueTime si) (dueTime other)"

text \<open>\<^verbatim>\<open>__lt__\<close>, the order that \<^verbatim>\<open>queue.PriorityQueue\<close> uses.\<close>

definition item_lt :: "('t, 'st) ScheduledItem \<Rightarrow> ('t, 'st) ScheduledItem \<Rightarrow> bool" where
  "item_lt si other = (compareTo si other < 0)"

text \<open>
  Python's \<^verbatim>\<open>queue.PriorityQueue\<close>, as a list of the items it holds. \<open>get_min\<close> takes
  out an item that no other item is less than (the earliest such item of the list; the
  heap of the library may take another one among items none of which is less than the
  other). \<^verbatim>\<open>get_nowait\<close> raises \<^verbatim>\<open>queue.Empty\<close> on an empty queue. \<^verbatim>\<open>put\<close> on
  a queue that holds \<open>maxsize\<close> items waits for a free slot, which never comes when
  nothing else runs.
\<close>

fun get_min :: "('t, 'st) ScheduledItem list \<Rightarrow>
    (('t, 'st) ScheduledItem \<times> ('t, 'st) ScheduledItem list) option" where
  "get_min [] = None"
| "get_min (x # xs) =
     (case get_min xs of
        None \<Rightarrow> Some (x, [])
      | Some (m, rest) \<Rightarrow> if item_lt m x then Some (m, x # rest) else Some (x, xs))"

definition put :: "nat \<Rightarrow> ('t, 'st) ScheduledItem \<Rightarrow> ('t, 'st) ScheduledItem list \<Rightarrow>
    ('t, 'st) ScheduledItem list option" where
  "put maxsize si q = (if 0 < maxsize \<and> maxsize \<le> length q then None else Some (q @ [si]))"

section \<open>VirtualTimeScheduler\<close>

text \<open>
  The fields of \<^verbatim>\<open>VirtualTimeScheduler.__init__\<close>, and a history \<open>invoked\<close> of the
  invocations made so far: the state of the invoked item and the clock at that moment.
\<close>

record ('t, 'st) VirtualTimeScheduler =
  clock :: 't
  comparer :: "'t \<Rightarrow> 't \<Rightarrow> int"
  isEnabled :: bool
  queue :: "('t, 'st) ScheduledItem list"
  invoked :: "('st \<times> 't) list"

text \<open>
  A user action \<^verbatim>\<open>action(scheduler, state)\<close> may do anything to the scheduler it is
  given; it is a function from the item's state and the scheduler to an outcome and the
  scheduler it leaves.
\<close>

type_synonym ('t, 'st) actions =
  "nat \<Rightarrow> 'st \<Rightarrow> ('t, 'st) VirtualTimeScheduler \<Rightarrow>
     unit outcome \<times> ('t, 'st) VirtualTimeScheduler"

definition VirtualTimeScheduler_init ::
    "'t \<Rightarrow> ('t \<Rightarrow> 't \<Rightarrow> int) \<Rightarrow> ('t, 'st) VirtualTimeScheduler" where
  "VirtualTimeScheduler_init clock0 comparer0 =
     \<lparr>clock = clock0, comparer = comparer0, isEnabled = False, queue = [], invoked = []\<rparr>"

text \<open>
  \<^verbatim>\<open>
  def scheduleAbsoluteWithState(self, state, dueTime, action):
    si = ScheduledItem(self, state, run, dueTime, self.comparer)
    self.queue.put(si)
    return si.disposable
  \<close>
  The item's action is read from the name \<^verbatim>\<open>run\<close>. The callables in scope are the
  parameter \<^verbatim>\<open>action\<close> and the names of the module (its imports and classes), none of
  which is \<^verbatim>\<open>run\<close>: the lookup fails with a NameError before anything is enqueued.
\<close>

definition scheduleAbsoluteWithState ::
    "'st \<Rightarrow> 't \<Rightarrow> nat \<Rightarrow> ('t, 'st) VirtualTimeScheduler \<Rightarrow>
     unit outcome \<times> ('t, 'st) VirtualTimeScheduler" where
  "scheduleAbsoluteWithState st due act s =
     (case map_of [(''action'', act)] ''run'' of
        None \<Rightarrow> (Raise (NameError ''run''), s)
      | Some run \<Rightarrow>
          (let si = \<lparr>state = st, action = run, dueTime = due,
                     item_comparer = comparer s, isDisposed = False\<rparr>
           in case put 1024 si (queue s) of
                None \<Rightarrow> (Diverges, s)
              | Some q \<Rightarrow> (Return (), s\<lparr>queue := q\<rparr>)))"

text \<open>
  \<^verbatim>\<open>
  def scheduleRelativeWithState(self, state, dueTime, action):
    runAt = self.add(self.clock, dueTime)
    return self.scheduleAbsoluteWithState(state, runAt, action)
  \<close>
  \<^verbatim>\<open>add\<close> is left to the subclass: it is a parameter.
\<close>

definition scheduleRelativeWithState ::
    "('t \<Rightarrow> 'r \<Rightarrow> 't) \<Rightarrow> 'st \<Rightarrow> 'r \<Rightarrow> nat \<Rightarrow> ('t, 'st) VirtualTimeScheduler \<Rightarrow>
     unit outcome \<times> ('t, 'st) VirtualTimeScheduler" where
  "scheduleRelativeWithState add st due act s =
     scheduleAbsoluteWithState st (add (clock s) due) act s"



text \<open>
  \<^verbatim>\<open>
  def getNext(self):
    while True:
      next = self.queue.get_nowait()
      if next == None:
        return None
      elif next.isCancelled():
        continue
      else:
        return next
  \<close>
  The queue holds items only, so \<^verbatim>\<open>next == None\<close> never holds: on an empty queue
  \<^verbatim>\<open>get_nowait\<close> raises.
\<close>

lemma get_min_length: "get_min q = Some (m, rest) \<Longrightarrow> length rest < length q"
  by (induction q arbitrary: m rest) (auto split: option.splits if_splits)

function getNext :: "('t, 'st) VirtualTimeScheduler \<Rightarrow>
    ('t, 'st) ScheduledItem outcome \<times> ('t, 'st) VirtualTimeScheduler" where
  "getNext s =
     (case get_min (queue s) of
        None \<Rightarrow> (Raise Empty, s)
      | Some (next, rest) \<Rightarrow>
          if isCancelled next then getNext (s\<lparr>queue := rest\<rparr>)
          else (Return next, s\<lparr>queue := rest\<rparr>))"
  by pat_completeness auto
termination
  by (relation "measure (\<lambda>s. length (queue s))") (auto dest: get_min_length)

declare getNext.simps [simp del]

text \<open>
  \<^verbatim>\<open>
  def invoke(self):
    self.disposable.disposable(self.invokeCore())
  def invokeCore(self):
    return self.action(self.scheduler, self.state)
  \<close>
  The token that the action returns is handed to the item's own disposable and has no
  effect on the scheduler.
\<close>

definition invoke :: "('t, 'st) actions \<Rightarrow> ('t, 'st) ScheduledItem \<Rightarrow>
    ('t, 'st) VirtualTimeScheduler \<Rightarrow> unit outcome \<times> ('t, 'st) VirtualTimeScheduler" where
  "invoke acts si s = acts (action si) (state si) (s\<lparr>invoked := invoked s @ [(state si, clock s)]\<rparr>)"

text \<open>
  \<^verbatim>\<open>
  def start(self, until):
    if not self.isEnabled:
      self.isEnabled = True
      while self.isEnabled:
        next = self.getNext()
        nextIsTooLate = until != None and self.comparer(next.dueTime, until) > 0
        if next == None or nextIsTooLate:
          self.isEnabled = False
        else:
          if self.comparer(next.dueTime, self.clock) > 0:
            self.clock = next.dueTime
          next.invoke()
  \<close>
  The loop runs as long as actions keep scheduling items: it is given fuel, one unit for
  each test of its condition, and its outcome is \<open>Diverges\<close> when the fuel runs out
  while the scheduler is still enabled.
\<close>

definition advance_clock :: "('t, 'st) ScheduledItem \<Rightarrow> ('t, 'st) VirtualTimeScheduler \<Rightarrow>
    ('t, 'st) VirtualTimeScheduler" where
  "advance_clock next s =
     (if comparer s (dueTime next) (clock s) > 0 then s\<lparr>clock := dueTime next\<rparr> else s)"

fun start_loop :: "nat \<Rightarrow> ('t, 'st) actions \<Rightarrow> 't option \<Rightarrow> ('t, 'st) VirtualTimeScheduler \<Rightarrow>
    unit outcome \<times> ('t, 'st) VirtualTimeScheduler" where
  "start_loop 0 acts until s = (if isEnabled s then (Diverges, s) else (Return (), s))"
| "start_loop (Suc fuel) acts until s =
     (if \<not> isEnabled s then (Return (), s)
      else case getNext s of
          (Return next, s1) \<Rightarrow>
            (let nextIsTooLate =
                   (case until of None \<Rightarrow> False
                    | Some u \<Rightarrow> comparer s1 (dueTime next) u > 0)
             in if nextIsTooLate then start_loop fuel acts until (s1\<lparr>isEnabled := False\<rparr>)
                else case invoke acts next (advance_clock next s1) of
                    (Return u, s2) \<Rightarrow> start_loop fuel acts until s2
                  | (Raise e, s2) \<Rightarrow> (Raise e, s2)
                  | (Diverges, s2) \<Rightarrow> (Diverges, s2))
        | (Raise e, s1) \<Rightarrow> (Raise e, s1)
        | (Diverges, s1) \<Rightarrow> (Diverges, s1))"

definition start :: "nat \<Rightarrow> ('t, 'st) actions \<Rightarrow> 't option \<Rightarrow> ('t, 'st) VirtualTimeScheduler \<Rightarrow>
    unit outcome \<times> ('t, 'st) VirtualTimeScheduler" where
  "start fuel acts until s =
     (if \<not> isEnabled s then start_loop fuel acts until (s\<lparr>isEnabled := True\<rparr>)
      else (Return (), s))"


text \<open>
  \<^verbatim>\<open>
  def advanceTo(self, time):
    dueToClock = self.comparer(time, self.clock)
    if dueToClock < 0:
      raise Exception('Argument out of range')
    if dueToClock == 0:
      return
    self.start(time)
  def advanceBy(self, time):
    return self.advanceTo(self.add(self.clock, time))
  def sleep(self, time):
    until = self.add(self.clock, time)
    if self.comparer(self.clock, until) >= 0:
      raise Exception('Argument out of range')
    self.clock = until
  \<close>
\<close>

definition advanceTo :: "nat \<Rightarrow> ('t, 'st) actions \<Rightarrow> 't \<Rightarrow> ('t, 'st) VirtualTimeScheduler \<Rightarrow>
    unit outcome \<times> ('t, 'st) VirtualTimeScheduler" where
  "advanceTo fuel acts time s =
     (let dueToClock = comparer s time (clock s)
      in if dueToClock < 0 then (Raise ArgumentOutOfRange, s)
         else if dueToClock = 0 then (Return (), s)
         else start fuel acts (Some time) s)"


definition sleep :: "('t \<Rightarrow> 'r \<Rightarrow> 't) \<Rightarrow> 'r \<Rightarrow> ('t, 'st) VirtualTimeScheduler \<Rightarrow>
    unit outcome \<times> ('t, 'st) VirtualTimeScheduler" where
  "sleep add time s =
     (let until = add (clock s) time
      in if comparer s (clock s) until \<ge> 0 then (Raise ArgumentOutOfRange, s)
         else (Return (), s\<lparr>clock := until\<rparr>))"

section \<open>HistoricalScheduler\<close>

text \<open>
  \<^verbatim>\<open>
  def __init__(self, initialClock = 0, comparer = defaultSubComparer):
    super(HistoricalScheduler, self).__init__(initialClock, comparer)
    self.clock = initialClock
    self.cmp = comparer
  def add(self, absolute, relative):
    return absolute + relative
  def toRelative(self, timeSpan):
    return timeSpan
  \<close>
  Absolute and relative times are numbers.
\<close>

definition HistoricalScheduler :: "int \<Rightarrow> (int \<Rightarrow> int \<Rightarrow> int) \<Rightarrow> (int, 'st) VirtualTimeScheduler" where
  "HistoricalScheduler initialClock comparer0 =
     (VirtualTimeScheduler_init initialClock comparer0)\<lparr>clock := initialClock\<rparr>"

definition Historical_add :: "int \<Rightarrow> int \<Rightarrow> int" where
  "Historical_add absolute relative = absolute + relative"


section \<open>CatchScheduler\<close>

text \<open>
  A scheduler is an object, known by its identity. \<open>Wrapper k\<close> is the CatchScheduler
  that lives at position \<open>k\<close> of the store of CatchScheduler objects; \<open>Inner k\<close> is any
  other scheduler object, number \<open>k\<close>. A new CatchScheduler is allocated at the end of
  the store, so it is identical to no scheduler that existed before.
\<close>

datatype sched = Inner nat | Wrapper nat

text \<open>
  The fields that \<^verbatim>\<open>CatchScheduler.__init__\<close> sets: \<^verbatim>\<open>_scheduler\<close>, \<^verbatim>\<open>_handler\<close>,
  \<^verbatim>\<open>_recursiveOriginal\<close> and \<^verbatim>\<open>_recursiveWrapper\<close> (both \<^verbatim>\<open>None\<close> at first).
\<close>

record CatchScheduler =
  scheduler_field :: sched
  handler_field :: "error \<Rightarrow> bool"
  recursiveOriginal :: "sched option"
  recursiveWrapper :: "sched option"

type_synonym store = "CatchScheduler list"

definition CatchScheduler_init :: "sched \<Rightarrow> (error \<Rightarrow> bool) \<Rightarrow> CatchScheduler" where
  "CatchScheduler_init scheduler handler =
     \<lparr>scheduler_field = scheduler, handler_field = handler,
      recursiveOriginal = None, recursiveWrapper = None\<rparr>"

text \<open>
  \<^verbatim>\<open>
  def _clone(self, scheduler):
    return CatchScheduler(scheduler, self._handler)
  \<close>
  The new object and its identity, in the store that holds it.
\<close>

definition clone :: "nat \<Rightarrow> sched \<Rightarrow> store \<Rightarrow> nat \<times> store" where
  "clone self scheduler h =
     (length h, h @ [CatchScheduler_init scheduler (handler_field (h ! self))])"

text \<open>
  \<^verbatim>\<open>
  def _getRecursiveWrapper(self, scheduler):
    with self.lock:
      if self._recursiveOriginal != scheduler:
        self._recursiveOriginal = scheduler
        wrapper = self._clone(scheduler)
        wrapper._recursiveOriginal = scheduler
        wrapper._recursiveWrapper = wrapper
        self._recursiveWrapper = wrapper
    return self._recursiveWrapper
  \<close>
  \<open>self\<close> is the position in the store of the CatchScheduler that is asked.
\<close>

definition getRecursiveWrapper :: "nat \<Rightarrow> sched \<Rightarrow> store \<Rightarrow> sched option \<times> store" where
  "getRecursiveWrapper self scheduler h =
     (if recursiveOriginal (h ! self) \<noteq> Some scheduler then
        (let h1 = h[self := (h ! self)\<lparr>recursiveOriginal := Some scheduler\<rparr>];
             (wrapper, h2) = clone self scheduler h1;
             h3 = h2[wrapper := (h2 ! wrapper)\<lparr>recursiveOriginal := Some scheduler\<rparr>];
             h4 = h3[wrapper := (h3 ! wrapper)\<lparr>recursiveWrapper := Some (Wrapper wrapper)\<rparr>];
             h5 = h4[self := (h4 ! self)\<lparr>recursiveWrapper := Some (Wrapper wrapper)\<rparr>]
         in (recursiveWrapper (h5 ! self), h5))
      else (recursiveWrapper (h ! self), h))"

text \<open>The wrappers that a sequence of lookups on one CatchScheduler returns, in order.\<close>

fun lookups :: "nat \<Rightarrow> sched list \<Rightarrow> store \<Rightarrow> sched option list" where
  "lookups self [] h = []"
| "lookups self (x # xs) h =
     (case getRecursiveWrapper self x h of (w, h') \<Rightarrow> w # lookups self xs h')"

text \<open>
  A cancellation token: \<^verbatim>\<open>Disposable.empty()\<close>, or the token number \<open>k\<close> that an action
  returned.
\<close>

datatype disposable = Disposable_empty | Disposable nat

text \<open>
  A scheduled action \<^verbatim>\<open>action(scheduler, state)\<close> under a CatchScheduler: it is given
  a scheduler and a state, returns a token or raises, and may create and change
  CatchSchedulers while it runs (it may schedule on the scheduler it is given).
\<close>

type_synonym 'st catch_actions =
  "nat \<Rightarrow> sched option \<Rightarrow> 'st \<Rightarrow> store \<Rightarrow> disposable outcome \<times> store"

text \<open>
  \<^verbatim>\<open>
  class CatchWrapper:
    def __init__(self, parent, action):
      self.parent = parent
      self.action = action
    def __call__(self, _self, _state):
      try:
        return self.action(self.parent._getRecursiveWrapper(_self), _state)
      except Exception as e:
        if not self.parent._handler(e): raise e
        return Disposable.empty()
  \<close>
\<close>

definition CatchWrapper_call :: "'st catch_actions \<Rightarrow> nat \<Rightarrow> nat \<Rightarrow> sched \<Rightarrow> 'st \<Rightarrow> store \<Rightarrow>
    disposable outcome \<times> store" where
  "CatchWrapper_call acts parent act self_arg state_arg h =
     (case getRecursiveWrapper parent self_arg h of
        (w, h1) \<Rightarrow>
          (case acts act w state_arg h1 of
             (Raise e, h2) \<Rightarrow>
               if \<not> handler_field (h2 ! parent) e then (Raise e, h2)
               else (Return Disposable_empty, h2)
           | (Return d, h2) \<Rightarrow> (Return d, h2)
           | (Diverges, h2) \<Rightarrow> (Diverges, h2)))"

subsection \<open>Periodic scheduling under a CatchScheduler\<close>

text \<open>
  \<^verbatim>\<open>
  def schedulePeriodicWithState(self, state, period, action):
    failed = False
    failureLock = RLock
    d = SingleAssignmentDisposable()
    def scheduled(_state):
      with failureLock:
        nonlocal failed
        if failed:
          return None
        try:
          return action(_state)
        except Exception as e:
          failed = True
          if not self.handler(e):
            raise e
          d.dispose()
          return None
    d.setDisposable(
      self._scheduler.schedulePeriodicWithState(state, period, scheduled))
    return d
  \<close>
  The variables of the closure: \<open>failed\<close>, whether \<open>d\<close> has been disposed, and (as a
  history) how many times the user action has been invoked.
\<close>

record periodic =
  failed :: bool
  d_isDisposed :: bool
  invocations :: nat

text \<open>
  What \<open>failureLock\<close> is bound to: \<^verbatim>\<open>threading.RLock\<close> itself, which creates locks, or
  a lock \<^verbatim>\<open>RLock()\<close> that it created. Only a lock can be entered by \<^verbatim>\<open>with\<close>.
\<close>

datatype lock_value = RLock_factory | RLock_object

definition enter_with :: "lock_value \<Rightarrow> unit outcome" where
  "enter_with l = (case l of RLock_factory \<Rightarrow> Raise ContextManagerError
                   | RLock_object \<Rightarrow> Return ())"

text \<open>
  The attributes of a CatchScheduler that hold a predicate on faults. Its other
  attributes are \<^verbatim>\<open>now\<close>, \<^verbatim>\<open>_schedule\<close>, \<^verbatim>\<open>_scheduleRelative\<close>, \<^verbatim>\<open>_scheduleAbsolute\<close>,
  \<^verbatim>\<open>_scheduler\<close>, \<^verbatim>\<open>_recursiveOriginal\<close>, \<^verbatim>\<open>_recursiveWrapper\<close>, \<^verbatim>\<open>lock\<close> and the
  methods of its classes; reading any other name raises an AttributeError.
\<close>

definition CatchScheduler_getattr :: "CatchScheduler \<Rightarrow> string \<Rightarrow> (error \<Rightarrow> bool) outcome" where
  "CatchScheduler_getattr self name =
     (case map_of [(''_handler'', handler_field self)] name of
        None \<Rightarrow> Raise (AttributeError name)
      | Some v \<Rightarrow> Return v)"

text \<open>One call of the closure \<^verbatim>\<open>scheduled\<close>, that is one tick of the periodic timer.\<close>

definition scheduled :: "lock_value \<Rightarrow> CatchScheduler \<Rightarrow> ('st \<Rightarrow> 'st outcome) \<Rightarrow> 'st \<Rightarrow> periodic \<Rightarrow>
    'st option outcome \<times> periodic" where
  "scheduled failureLock self act state_arg p =
     (case enter_with failureLock of
        Raise e \<Rightarrow> (Raise e, p)
      | Diverges \<Rightarrow> (Diverges, p)
      | Return u \<Rightarrow>
          if failed p then (Return None, p)
          else (case act state_arg of
                  Return v \<Rightarrow> (Return (Some v), p\<lparr>invocations := invocations p + 1\<rparr>)
                | Diverges \<Rightarrow> (Diverges, p\<lparr>invocations := invocations p + 1\<rparr>)
                | Raise e \<Rightarrow>
                    (let p1 = p\<lparr>invocations := invocations p + 1, failed := True\<rparr>
                     in case CatchScheduler_getattr self ''handler'' of
                          Raise e' \<Rightarrow> (Raise e', p1)
                        | Diverges \<Rightarrow> (Diverges, p1)
                        | Return handler \<Rightarrow>
                            if \<not> handler e then (Raise e, p1)
                            else (Return None, p1\<lparr>d_isDisposed := True\<rparr>))))"

text \<open>
  \<^verbatim>\<open>schedulePeriodicWithState\<close> binds \<open>failureLock\<close> to \<^verbatim>\<open>RLock\<close> and starts with
  \<open>failed = False\<close> and a fresh \<open>d\<close>. The inner scheduler calls the closure at every
  tick; \<open>periodic_tick\<close> is one such call.
\<close>

definition periodic_start :: periodic where
  "periodic_start = \<lparr>failed = False, d_isDisposed = False, invocations = 0\<rparr>"

definition periodic_tick :: "CatchScheduler \<Rightarrow> ('st \<Rightarrow> 'st outcome) \<Rightarrow> 'st \<Rightarrow> periodic \<Rightarrow>
    'st option outcome \<times> periodic" where
  "periodic_tick self act state_arg p = scheduled RLock_factory self act state_arg p"

section \<open>CurrentThreadScheduler\<close>

text \<open>
  The values that the scheduling calls of the CurrentThreadScheduler pass around: numbers,
  \<^verbatim>\<open>None\<close>, user callables (by number), \<^verbatim>\<open>Scheduler.invokeAction\<close>, a priority
  queue, and an item's cancellation token.
\<close>

datatype pyval =
    PyNone
  | PyNumber real
  | PyFunction nat
  | PyInvokeAction
  | PyQueue
  | PyDisposable

text \<open>
  A call binds positional arguments to the parameters after \<^verbatim>\<open>self\<close>; none of the
  methods here has a default value, so a call with another number of arguments raises a
  TypeError.
\<close>

definition bind_params :: "string list \<Rightarrow> pyval list \<Rightarrow> (string \<times> pyval) list option" where
  "bind_params params args =
     (if length args = length params then Some (zip params args) else None)"

text \<open>
  \<^verbatim>\<open>
  def _queue():
    def fget(self):
      if not hasattr(threading.local(), 'reactive_extensions_current_thread_queue'):
        threading.local().reactive_extensions_current_thread_queue = None
      return threading.local().reactive_extensions_current_thread_queue
    def fset(self, value):
      threading.local().reactive_extensions_current_thread_queue = value
    ...
  _queue = property(**_queue())
  \<close>
  Every call of \<^verbatim>\<open>threading.local()\<close> makes a new object without attributes. The
  getter tests one such object, assigns to a second one and reads from a third one; the
  setter assigns to an object that nobody keeps.
\<close>

definition threading_local :: "(string \<times> pyval) list" where
  "threading_local = []"

definition queue_attribute :: string where
  "queue_attribute = ''reactive_extensions_current_thread_queue''"

definition queue_fget :: "pyval outcome" where
  "queue_fget =
     (let tested = threading_local;
          assigned = (if map_of tested queue_attribute = None
                      then (queue_attribute, PyNone) # threading_local else threading_local);
          read = threading_local
      in case map_of read queue_attribute of
           None \<Rightarrow> Raise (AttributeError queue_attribute)
         | Some q \<Rightarrow> Return q)"

text \<open>
  \<^verbatim>\<open>
  def _run(self):
    while self._queue.not_empty():
      item = self._queue.get()
      if item.isCancelled():
        continue
      sleep(item.dueTime - Scheduler.now())
      if not item.isCancelled():
        item.invoke()
  \<close>
  The condition of the loop reads the property, which raises. On a queue it would call
  \<^verbatim>\<open>not_empty\<close>, which is a condition variable of \<^verbatim>\<open>queue.Queue\<close> and not a method; on
  \<^verbatim>\<open>None\<close> the attribute does not exist. The body of the loop is not reached.
\<close>

definition CurrentThread_run :: "unit outcome" where
  "CurrentThread_run =
     (case queue_fget of
        Raise e \<Rightarrow> Raise e
      | Diverges \<Rightarrow> Diverges
      | Return q \<Rightarrow>
          if q = PyNone then Raise (AttributeError ''not_empty'')
          else Raise (TypeError ''not_empty''))"

text \<open>
  \<^verbatim>\<open>
  def _scheduleRelative(self, dueTime, action):
    dt = self.now() + Scheduler.normalize(dueTime)
    si = ScheduledItem(self, state, action, dt)
    if self._queue == None:
      self._init()
      try:
        self._queue.put(si)
        self._run()
      finally:
        self._dispose()
    else:
      self._queue.put(si)
    return si.disposable
  \<close>
  \<open>now\<close> is the time that \<^verbatim>\<open>defaultNow\<close> reads. The method declares two parameters
  after \<^verbatim>\<open>self\<close> and reads the name \<^verbatim>\<open>state\<close>, which is none of them. \<^verbatim>\<open>_init\<close> and
  \<^verbatim>\<open>_dispose\<close> assign to the property and leave nothing behind.
\<close>

definition CurrentThread_scheduleRelative :: "real \<Rightarrow> pyval list \<Rightarrow> pyval outcome" where
  "CurrentThread_scheduleRelative now args =
     (case bind_params [''dueTime'', ''action''] args of
        None \<Rightarrow> Raise (TypeError ''_scheduleRelative'')
      | Some env \<Rightarrow>
          (case map_of env ''dueTime'' of
             Some (PyNumber due) \<Rightarrow>
               (let dt = now + normalize_timeSpan due
                in case map_of env ''state'' of
                     None \<Rightarrow> Raise (NameError ''state'')
                   | Some state_value \<Rightarrow>
                       (case queue_fget of
                          Raise e \<Rightarrow> Raise e
                        | Diverges \<Rightarrow> Diverges
                        | Return q \<Rightarrow>
                            if q = PyNone then
                              (case queue_fget of
                                 Raise e \<Rightarrow> Raise e
                               | Diverges \<Rightarrow> Diverges
                               | Return q' \<Rightarrow>
                                   (case CurrentThread_run of
                                      Raise e \<Rightarrow> Raise e
                                    | Diverges \<Rightarrow> Diverges
                                    | Return u \<Rightarrow> Return PyDisposable))
                            else
                              (case queue_fget of
                                 Raise e \<Rightarrow> Raise e
                               | Diverges \<Rightarrow> Diverges
                               | Return q' \<Rightarrow> Return PyDisposable)))
           | _ \<Rightarrow> Raise (TypeError ''normalize'')))"

text \<open>
  \<^verbatim>\<open>
  def schedule(self, action):                                  # Scheduler
    return self._schedule(action, Scheduler.invokeAction)
  def scheduleWithRelativeAndState(self, state, dueTime, action):   # Scheduler
    return self._scheduleRelative(state, dueTime, action)
  def _scheduleNow(self, state, action):                        # CurrentThreadScheduler
    return self.scheduleWithRelativeAndState(state, 0, action)
  \<close>
  \<^verbatim>\<open>__init__\<close> stores \<^verbatim>\<open>self._scheduleNow\<close> as \<^verbatim>\<open>_schedule\<close> and
  \<^verbatim>\<open>self._scheduleRelative\<close> as \<^verbatim>\<open>_scheduleRelative\<close>.
\<close>

definition CurrentThread_scheduleWithRelativeAndState ::
    "real \<Rightarrow> pyval \<Rightarrow> pyval \<Rightarrow> pyval \<Rightarrow> pyval outcome" where
  "CurrentThread_scheduleWithRelativeAndState now state_value due act =
     CurrentThread_scheduleRelative now [state_value, due, act]"

definition CurrentThread_scheduleNow :: "real \<Rightarrow> pyval \<Rightarrow> pyval \<Rightarrow> pyval outcome" where
  "CurrentThread_scheduleNow now state_value act =
     CurrentThread_scheduleWithRelativeAndState now state_value (PyNumber 0) act"

definition CurrentThread_schedule :: "real \<Rightarrow> pyval \<Rightarrow> pyval outcome" where
  "CurrentThread_schedule now act = CurrentThread_scheduleNow now act PyInvokeAction"

section \<open>RecursiveScheduledFunction\<close>

text \<open>
  The coordinator of a recursive schedule, together with the scheduler it drives and the
  tokens. The fields of the object are \<open>isDone\<close>, \<open>isAdded\<close> and \<open>cancel\<close> (the
  attributes that \<^verbatim>\<open>actionCallback\<close> assigns on \<^verbatim>\<open>self\<close>) and the group, with the
  tokens it holds and whether it has been disposed. \<open>disposed\<close> are the tokens that
  have been disposed, \<open>pending\<close> the steps that the scheduler has been given and has not
  started, each under its token, and \<open>ran\<close> is the history of the states with which the
  user action has been invoked.
\<close>

record 'st RecursiveScheduledFunction =
  isDone :: bool
  isAdded :: bool
  cancel :: "nat option"
  group :: "nat list"
  group_isDisposed :: bool
  disposed :: "nat list"
  pending :: "(nat \<times> 'st) list"
  next_token :: nat
  ran :: "'st list"

definition RecursiveScheduledFunction_init :: "'st RecursiveScheduledFunction" where
  "RecursiveScheduledFunction_init =
     \<lparr>isDone = False, isAdded = False, cancel = None, group = [], group_isDisposed = False,
      disposed = [], pending = [], next_token = 0, ran = []\<rparr>"

text \<open>
  Modelled from the spec: \<^verbatim>\<open>CompositeDisposable\<close> (module \<^verbatim>\<open>disposable\<close>) is not among
  the sources. As the spec has it, a composite holds a collection of tokens; adding to a
  composite that has been disposed disposes the addition at once instead of retaining
  it; \<^verbatim>\<open>remove\<close> takes a token out of the group; disposing the composite disposes and
  clears all the tokens it holds. The spec does not say whether \<^verbatim>\<open>remove\<close> also disposes
  the token that it takes out: \<open>remove_disposes\<close> is a parameter, and both answers are
  covered.
\<close>

definition group_add :: "nat \<Rightarrow> 'st RecursiveScheduledFunction \<Rightarrow> 'st RecursiveScheduledFunction" where
  "group_add k s =
     (if group_isDisposed s then s\<lparr>disposed := disposed s @ [k]\<rparr>
      else s\<lparr>group := group s @ [k]\<rparr>)"

definition group_remove :: "bool \<Rightarrow> nat option \<Rightarrow> 'st RecursiveScheduledFunction \<Rightarrow>
    'st RecursiveScheduledFunction" where
  "group_remove remove_disposes c s =
     (case c of
        None \<Rightarrow> s
      | Some k \<Rightarrow>
          if k \<in> set (group s)
          then s\<lparr>group := remove1 k (group s),
                 disposed := (if remove_disposes then disposed s @ [k] else disposed s)\<rparr>
          else s)"

definition group_dispose :: "'st RecursiveScheduledFunction \<Rightarrow> 'st RecursiveScheduledFunction" where
  "group_dispose s =
     s\<lparr>disposed := disposed s @ group s, group := [], group_isDisposed := True\<rparr>"

text \<open>
  The scheduler is the one given to the constructor; with \<^verbatim>\<open>method == None\<close> the
  coordinator calls its \<^verbatim>\<open>scheduleWithState\<close>. It is taken here to be a scheduler that
  hands its work to worker threads, as a pool does: \<^verbatim>\<open>scheduleWithState\<close> records the
  step under a new token and returns the token, and a worker later starts the step by
  calling the callback, unless the token has been disposed by then.
\<close>

definition scheduleWithState :: "'st \<Rightarrow> 'st RecursiveScheduledFunction \<Rightarrow>
    nat \<times> 'st RecursiveScheduledFunction" where
  "scheduleWithState newState s =
     (next_token s,
      s\<lparr>pending := pending s @ [(next_token s, newState)], next_token := Suc (next_token s)\<rparr>)"

text \<open>
  \<^verbatim>\<open>
  def actionCallback(self, newState, dueTime = None):
    self.isDone = False
    self.isAdded = False
    if dueTime == None:
      self.cancel = self.schedule(newState, self.schedulerCallback)
    else:
      ...
    with self.lock:
      if not self.isDone:
        self.group.add(self.cancel)
        self.isAdded = True
  \<close>
  The statements of \<^verbatim>\<open>actionCallback\<close>, one definition each. The assignment to
  \<^verbatim>\<open>self.cancel\<close> is two steps, between which other threads can run: the call of
  \<^verbatim>\<open>self.schedule\<close>, which returns a token, and the store of that token in the
  attribute. The block under the lock is one step.
\<close>

definition actionCallback_isDone :: "'st RecursiveScheduledFunction \<Rightarrow> 'st RecursiveScheduledFunction" where
  "actionCallback_isDone s = s\<lparr>isDone := False\<rparr>"

definition actionCallback_isAdded :: "'st RecursiveScheduledFunction \<Rightarrow> 'st RecursiveScheduledFunction" where
  "actionCallback_isAdded s = s\<lparr>isAdded := False\<rparr>"

definition actionCallback_cancel :: "nat \<Rightarrow> 'st RecursiveScheduledFunction \<Rightarrow>
    'st RecursiveScheduledFunction" where
  "actionCallback_cancel k s = s\<lparr>cancel := Some k\<rparr>"

definition actionCallback_locked :: "'st RecursiveScheduledFunction \<Rightarrow> 'st RecursiveScheduledFunction" where
  "actionCallback_locked s =
     (if \<not> isDone s
      then (case cancel s of
              None \<Rightarrow> s\<lparr>isAdded := True\<rparr>
            | Some c \<Rightarrow> (group_add c s)\<lparr>isAdded := True\<rparr>)
      else s)"

text \<open>
  \<^verbatim>\<open>
  def schedulerCallback(self, scheduler, state):
    with self.lock:
      if self.isAdded:
        self.group.remove(self.cancel)
      else:
        self.isDone = True
    self.run(state)
    return Disposable.empty()
  def run(self, state):
    self.action(state, self.actionCallback)
  \<close>
  The block under the lock, and the invocation of the user action.
\<close>

definition schedulerCallback_locked :: "bool \<Rightarrow> 'st RecursiveScheduledFunction \<Rightarrow>
    'st RecursiveScheduledFunction" where
  "schedulerCallback_locked remove_disposes s =
     (if isAdded s then group_remove remove_disposes (cancel s) s else s\<lparr>isDone := True\<rparr>)"

definition run_action :: "'st \<Rightarrow> 'st RecursiveScheduledFunction \<Rightarrow> 'st RecursiveScheduledFunction" where
  "run_action st s = s\<lparr>ran := ran s @ [st]\<rparr>"

subsection \<open>Threads\<close>

text \<open>
  Where a thread stands in the code of the coordinator. The user action is given by the
  states that it passes to its continuation, one call of the continuation for each, in
  order; a thread inside the action carries the states that are still to be passed.
  \<^item> \<open>Idle\<close>: the thread runs nothing of the coordinator;
  \<^item> \<open>At_callback st\<close>: \<^verbatim>\<open>schedulerCallback\<close> has been called with state \<open>st\<close>; next is
    its block under the lock;
  \<^item> \<open>At_run st\<close>: next is \<^verbatim>\<open>self.run(state)\<close>, which invokes the action;
  \<^item> \<open>In_action xs\<close>: the action runs; next it calls its continuation with the first of
    \<open>xs\<close>, which executes \<^verbatim>\<open>self.isDone = False\<close>, or it returns when \<open>xs\<close> is empty;
  \<^item> \<open>At_isAdded xs\<close>: next is \<^verbatim>\<open>self.isAdded = False\<close>;
  \<^item> \<open>At_schedule xs\<close>: next is the call of \<^verbatim>\<open>self.schedule\<close>;
  \<^item> \<open>At_store k xs\<close>: the call has returned the token \<open>k\<close>; next is the store of \<open>k\<close> in
    \<^verbatim>\<open>self.cancel\<close>;
  \<^item> \<open>At_register xs\<close>: next is the block under the lock, after which the continuation
    returns to the action.
\<close>

datatype 'st phase =
    Idle
  | At_callback 'st
  | At_run 'st
  | In_action "'st list"
  | At_isAdded "'st list"
  | At_schedule "'st list"
  | At_store nat "'st list"
  | At_register "'st list"

text \<open>One statement of a thread: the phase it reaches and what it does to the coordinator.\<close>

fun advance :: "('st \<Rightarrow> 'st list) \<Rightarrow> bool \<Rightarrow> 'st phase \<Rightarrow> 'st RecursiveScheduledFunction \<Rightarrow>
    ('st phase \<times> 'st RecursiveScheduledFunction) option" where
  "advance act rd Idle s = None"
| "advance act rd (At_callback st) s = Some (At_run st, schedulerCallback_locked rd s)"
| "advance act rd (At_run st) s = Some (In_action (act st), run_action st s)"
| "advance act rd (In_action []) s = Some (Idle, s)"
| "advance act rd (In_action (x # xs)) s = Some (At_isAdded (x # xs), actionCallback_isDone s)"
| "advance act rd (At_isAdded xs) s = Some (At_schedule xs, actionCallback_isAdded s)"
| "advance act rd (At_schedule []) s = None"
| "advance act rd (At_schedule (x # xs)) s =
     (case scheduleWithState x s of (k, s') \<Rightarrow> Some (At_store k (x # xs), s'))"
| "advance act rd (At_store k xs) s = Some (At_register xs, actionCallback_cancel k s)"
| "advance act rd (At_register xs) s = Some (In_action (tl xs), actionCallback_locked s)"

text \<open>
  What happens next in an execution with several threads:
  \<^item> \<open>Start t st\<close>: the idle thread \<open>t\<close> begins the first step, \<^verbatim>\<open>scheduled.run(state)\<close> of
    \<^verbatim>\<open>invokeRecImmediate\<close>;
  \<^item> \<open>Begin t k\<close>: the idle worker \<open>t\<close> takes the pending step of token \<open>k\<close> from the
    scheduler, which drops the step if the token has been disposed and calls
    \<^verbatim>\<open>schedulerCallback\<close> with the step's state otherwise;
  \<^item> \<open>Step t\<close>: the thread \<open>t\<close> executes its next statement;
  \<^item> \<open>Dispose_group\<close>: the owner of the schedule disposes the group.
  An event that cannot happen in the state (a thread that is not idle begins a step, an
  idle thread executes a statement, a token that is not pending) has no successor.
\<close>

datatype 'st event = Start nat 'st | Begin nat nat | Step nat | Dispose_group

type_synonym 'st config = "(nat \<Rightarrow> 'st phase) \<times> 'st RecursiveScheduledFunction"

definition step :: "('st \<Rightarrow> 'st list) \<Rightarrow> bool \<Rightarrow> 'st event \<Rightarrow> 'st config \<Rightarrow> 'st config option" where
  "step act rd ev cfg =
     (case cfg of (th, s) \<Rightarrow>
        (case ev of
           Start t st \<Rightarrow> (if th t = Idle then Some (th(t := At_run st), s) else None)
         | Begin t k \<Rightarrow>
             (if th t = Idle then
                (case map_of (pending s) k of
                   None \<Rightarrow> None
                 | Some st \<Rightarrow>
                     (let s' = s\<lparr>pending := filter (\<lambda>p. fst p \<noteq> k) (pending s)\<rparr>
                      in if k \<in> set (disposed s) then Some (th, s')
                         else Some (th(t := At_callback st), s')))
              else None)
         | Step t \<Rightarrow>
             (case advance act rd (th t) s of
                None \<Rightarrow> None
              | Some (ph, s') \<Rightarrow> Some (th(t := ph), s'))
         | Dispose_group \<Rightarrow> Some (th, group_dispose s)))"

fun exec :: "('st \<Rightarrow> 'st list) \<Rightarrow> bool \<Rightarrow> 'st event list \<Rightarrow> 'st config \<Rightarrow> 'st config option" where
  "exec act rd [] cfg = Some cfg"
| "exec act rd (ev # evs) cfg =
     (case step act rd ev cfg of None \<Rightarrow> None | Some cfg' \<Rightarrow> exec act rd evs cfg')"

definition all_idle :: "'st config" where
  "all_idle = (\<lambda>t. Idle, RecursiveScheduledFunction_init)"

subsection \<open>Comparers, well-behaved actions and example schedulers\<close>



definition no_action :: "(int, int) actions" where
  "no_action a st s = (Return (), s)"


text \<open>
  A HistoricalScheduler at clock 0 whose queue was filled directly with an item of state 1
  due at 10 and an item of state 2 due at 5, and one with an item due at the clock's time
  and an item due later.
\<close>

definition two_items :: "(int, int) VirtualTimeScheduler" where
  "two_items = (HistoricalScheduler 0 (\<lambda>a b. a - b))
     \<lparr>queue := [\<lparr>state = 1, action = 0, dueTime = 10,
                  item_comparer = (\<lambda>a b. a - b), isDisposed = False\<rparr>,
                \<lparr>state = 2, action = 0, dueTime = 5,
                  item_comparer = (\<lambda>a b. a - b), isDisposed = False\<rparr>]\<rparr>"

definition due_now :: "(int, int) VirtualTimeScheduler" where
  "due_now = (HistoricalScheduler 0 (\<lambda>a b. a - b))
     \<lparr>queue := [\<lparr>state = 7, action = 0, dueTime = 0,
                  item_comparer = (\<lambda>a b. a - b), isDisposed = False\<rparr>,
                \<lparr>state = 8, action = 0, dueTime = 5,
                  item_comparer = (\<lambda>a b. a - b), isDisposed = False\<rparr>]\<rparr>"

text \<open>
  A store with one CatchScheduler whose handler accepts every fault, one whose handler
  accepts none, and an action that raises the fault of its own number.
\<close>

definition accept_all :: store where
  "accept_all = [CatchScheduler_init (Inner 0) (\<lambda>e. True)]"

definition accept_none :: store where
  "accept_none = [CatchScheduler_init (Inner 0) (\<lambda>e. False)]"

definition raiser :: "int catch_actions" where
  "raiser a w st h = (Raise (Fault a), h)"

text \<open>
  A recursive action that continues once in every step, with the next state, and stops
  at state 2: a chain of the steps 0, 1 and 2.
\<close>

definition chain :: "nat \<Rightarrow> nat list" where
  "chain st = (if st < 2 then [Suc st] else [])"

text \<open>
  Two executions of the chain on three threads, up to the moment where the steps 0 and 1
  have completed and step 2 is pending. In \<open>one_after_another\<close> thread 1 runs step 0 to
  its end before worker 2 starts step 1. In \<open>overlapping\<close> worker 2 starts step 1 as soon
  as thread 1 has scheduled it: thread 1 has the token of step 1 in hand and has not yet
  stored it in \<^verbatim>\<open>self.cancel\<close>; worker 2 runs the callback and the action of step 1 up
  to its own store of the token of step 2; then thread 1 stores its token and registers,
  worker 2 registers, and both return.
\<close>

definition one_after_another :: "nat event list" where
  "one_after_another =
     [Start 1 0, Step 1, Step 1, Step 1, Step 1, Step 1, Step 1, Step 1,
      Begin 2 0, Step 2, Step 2, Step 2, Step 2, Step 2, Step 2, Step 2, Step 2]"

definition overlapping :: "nat event list" where
  "overlapping =
     [Start 1 0, Step 1, Step 1, Step 1, Step 1,
      Begin 2 0, Step 2, Step 2, Step 2, Step 2, Step 2, Step 2,
      Step 1, Step 1, Step 1,
      Step 2, Step 2]"

text \<open>What is observed of a configuration: the phases of the threads 1, 2 and 3, the
  invocations, the pending steps, the group and the disposed tokens.\<close>

definition observe :: "nat config \<Rightarrow>
    nat phase \<times> nat phase \<times> nat phase \<times> nat list \<times> (nat \<times> nat) list \<times> nat list \<times> nat list" where
  "observe cfg =
     (case cfg of (th, s) \<Rightarrow> (th 1, th 2, th 3, ran s, pending s, group s, disposed s))"

section \<open>Properties\<close>

subsection \<open>VirtualTimeScheduler: frame and monotonicity lemmas\<close>

lemmas vts_eval = start_def HistoricalScheduler_def VirtualTimeScheduler_init_def getNext.simps
  isCancelled_def item_lt_def compareTo_def invoke_def advance_clock_def Historical_add_def









lemma sleep_comparer: "comparer (snd (sleep add d s)) = comparer s"
  by (simp add: sleep_def Let_def)




subsection \<open>VirtualTimeScheduler: the claims\<close>

text \<open>
  Claim C1. A HistoricalScheduler with initial clock 0, on which state 1 is scheduled at
  relative delay 10 and state 2 at relative delay 5, should invoke state 2 at clock 5, then
  state 1 at clock 10, and have clock 10 when start returns. The code does not: each of
  the two scheduling calls raises a NameError and leaves the scheduler as it was, so that
  start finds an empty queue and raises \<^verbatim>\<open>queue.Empty\<close> with nothing invoked. On a queue
  that holds the two items all the same, start invokes them in the order of the claim and
  brings the clock to 10, and then raises \<^verbatim>\<open>queue.Empty\<close> instead of returning.
\<close>

theorem historical_schedule_raises:
  "scheduleRelativeWithState Historical_add (1::int) 10 a (HistoricalScheduler 0 cmp)
      = (Raise (NameError ''run''), HistoricalScheduler 0 cmp)
   \<and> scheduleRelativeWithState Historical_add (2::int) 5 b (HistoricalScheduler 0 cmp)
      = (Raise (NameError ''run''), HistoricalScheduler 0 cmp)
   \<and> start (Suc fuel) acts None (HistoricalScheduler 0 cmp :: (int, int) VirtualTimeScheduler)
      = (Raise Empty, (HistoricalScheduler 0 cmp)\<lparr>isEnabled := True\<rparr>)
   \<and> start (Suc (Suc (Suc fuel))) no_action None two_items
      = (Raise Empty, two_items\<lparr>clock := 10, isEnabled := True, queue := [],
           invoked := [(2, 5), (1, 10)]\<rparr>)"
  by (simp add: scheduleRelativeWithState_def scheduleAbsoluteWithState_def vts_eval
      two_items_def no_action_def)

text \<open>
  Claim C2, as stated: when \<open>t\<close> does not precede the clock, \<open>advanceTo t\<close> runs
  \<open>start t\<close>. It fails when \<open>t\<close> is the clock's own time: \<open>advanceTo\<close> returns at once,
  while \<open>start\<close> would invoke the items that are due at that time.
\<close>

theorem advanceTo_equal_time_counterexample:
  "\<not> comparer due_now 0 (clock due_now) < 0
   \<and> advanceTo 3 no_action 0 due_now = (Return (), due_now)
   \<and> start 3 no_action (Some 0) due_now
       = (Return (), due_now\<lparr>queue := [], invoked := [(7, 0)]\<rparr>)
   \<and> advanceTo 3 no_action 0 due_now \<noteq> start 3 no_action (Some 0) due_now"
  by (simp add: advanceTo_def eval_nat_numeral vts_eval due_now_def no_action_def)

text \<open>
  Claim C2, amended. For every VirtualTimeScheduler and every time \<open>t\<close>: if \<open>t\<close> precedes
  the clock (the comparer is negative), \<open>advanceTo t\<close> raises the invalid-argument fault
  and leaves the scheduler unchanged (clock, queue, enabled flag, invocations); if the
  comparer is zero it returns at once and leaves the scheduler unchanged; if the comparer
  is positive it runs \<open>start t\<close>.
\<close>

theorem advanceTo_cases:
  "(comparer s t (clock s) < 0 \<longrightarrow> advanceTo fuel acts t s = (Raise ArgumentOutOfRange, s))
   \<and> (comparer s t (clock s) = 0 \<longrightarrow> advanceTo fuel acts t s = (Return (), s))
   \<and> (0 < comparer s t (clock s) \<longrightarrow> advanceTo fuel acts t s = start fuel acts (Some t) s)"
  by (simp add: advanceTo_def Let_def)

theorem advanceTo_cases_witness:
  "comparer (two_items\<lparr>clock := 7\<rparr>) 5 (clock (two_items\<lparr>clock := 7\<rparr>)) < 0
   \<and> advanceTo 3 no_action 5 (two_items\<lparr>clock := 7\<rparr>)
       = (Raise ArgumentOutOfRange, two_items\<lparr>clock := 7\<rparr>)
   \<and> comparer due_now 0 (clock due_now) = 0
   \<and> advanceTo 3 no_action 0 due_now = (Return (), due_now)
   \<and> 0 < comparer two_items 7 (clock two_items)
   \<and> advanceTo 3 no_action 7 two_items = start 3 no_action (Some 7) two_items"
  using advanceTo_cases [of "two_items\<lparr>clock := 7\<rparr>" 5 3 no_action]
    advanceTo_cases [of due_now 0 3 no_action] advanceTo_cases [of two_items 7 3 no_action]
  by (simp add: two_items_def due_now_def HistoricalScheduler_def VirtualTimeScheduler_init_def)



text \<open>
  Claim C10. On a VirtualTimeScheduler whose isEnabled flag is set, start returns at once:
  no item is popped, no action is invoked, and the clock, the queue and the flag are as
  before.
\<close>

theorem start_reentrant_noop:
  "isEnabled s \<Longrightarrow> start fuel acts until s = (Return (), s)"
  by (simp add: start_def)

theorem start_reentrant_noop_witness:
  "isEnabled (two_items\<lparr>isEnabled := True\<rparr>)
   \<and> start 3 no_action None (two_items\<lparr>isEnabled := True\<rparr>)
       = (Return (), two_items\<lparr>isEnabled := True\<rparr>)"
  using start_reentrant_noop [of "two_items\<lparr>isEnabled := True\<rparr>" 3 no_action None]
  by simp


subsection \<open>CatchScheduler\<close>

lemma getRecursiveWrapper_again:
  "self < length h \<Longrightarrow> getRecursiveWrapper self a h = (w, h1) \<Longrightarrow>
     getRecursiveWrapper self a h1 = (w, h1)"
  by (auto simp add: getRecursiveWrapper_def clone_def Let_def nth_append split: if_splits)

lemma getRecursiveWrapper_length:
  "getRecursiveWrapper self a h = (w, h1) \<Longrightarrow> length h \<le> length h1"
  by (auto simp add: getRecursiveWrapper_def clone_def Let_def split: if_splits)

lemma lookups_same:
  "self < length h1 \<Longrightarrow> getRecursiveWrapper self a h1 = (w, h1) \<Longrightarrow>
     lookups self (replicate n a) h1 = replicate n w"
  by (induction n) simp_all

lemma getRecursiveWrapper_handler:
  "parent < length h \<Longrightarrow> getRecursiveWrapper parent a h = (w, h1) \<Longrightarrow>
     handler_field (h1 ! parent) = handler_field (h ! parent)"
  by (auto simp add: getRecursiveWrapper_def clone_def Let_def nth_append split: if_splits)

text \<open>
  Claim C4. A scheduled action that raises a fault \<open>e\<close> under a CatchScheduler with
  handler \<open>h\<close>: if \<open>h e\<close> holds, the wrapped action returns the empty token and no fault
  escapes; if it does not, the wrapped action raises the same fault \<open>e\<close>, with the same
  effects, as the action itself did. (The action is one that leaves the handler of the
  CatchScheduler in place.)
\<close>

theorem catch_wrapper_handles:
  assumes "parent < length h"
    and "getRecursiveWrapper parent self_arg h = (w, h1)"
    and "acts act w st h1 = (Raise e, h2)"
    and "handler_field (h2 ! parent) = handler_field (h1 ! parent)"
  shows "(handler_field (h ! parent) e \<longrightarrow>
            CatchWrapper_call acts parent act self_arg st h = (Return Disposable_empty, h2))
       \<and> (\<not> handler_field (h ! parent) e \<longrightarrow>
            CatchWrapper_call acts parent act self_arg st h = (Raise e, h2)
            \<and> CatchWrapper_call acts parent act self_arg st h = acts act w st h1)"
  using assms getRecursiveWrapper_handler [OF assms(1) assms(2)]
  by (simp add: CatchWrapper_call_def)

theorem catch_wrapper_handles_witness:
  "handler_field (accept_all ! 0) (Fault 3)
   \<and> CatchWrapper_call raiser 0 3 (Inner 1) 0 accept_all
     = (Return Disposable_empty, snd (getRecursiveWrapper 0 (Inner 1) accept_all))
   \<and> \<not> handler_field (accept_none ! 0) (Fault 3)
   \<and> CatchWrapper_call raiser 0 3 (Inner 1) 0 accept_none
     = (Raise (Fault 3), snd (getRecursiveWrapper 0 (Inner 1) accept_none))"
proof -
  obtain w h1 where g: "getRecursiveWrapper 0 (Inner 1) accept_all = (w, h1)"
    by (cases "getRecursiveWrapper 0 (Inner 1) accept_all")
  obtain w' h1' where g': "getRecursiveWrapper 0 (Inner 1) accept_none = (w', h1')"
    by (cases "getRecursiveWrapper 0 (Inner 1) accept_none")
  have r: "raiser 3 w 0 h1 = (Raise (Fault 3), h1)" "raiser 3 w' 0 h1' = (Raise (Fault 3), h1')"
    by (simp_all add: raiser_def)
  have l: "(0::nat) < length accept_all" "(0::nat) < length accept_none"
    by (simp_all add: accept_all_def accept_none_def)
  have a: "handler_field (accept_all ! 0) (Fault 3)"
    by (simp add: accept_all_def CatchScheduler_init_def)
  have n: "\<not> handler_field (accept_none ! 0) (Fault 3)"
    by (simp add: accept_none_def CatchScheduler_init_def)
  from catch_wrapper_handles [where acts = raiser and act = 3 and st = 0, OF l(1) g r(1)]
    catch_wrapper_handles [where acts = raiser and act = 3 and st = 0, OF l(2) g' r(2)] a n g g'
  show ?thesis by simp
qed

text \<open>
  Claim C5, as stated: two lookups of one CatchScheduler for the same inner scheduler
  return the same wrapper, also when lookups for other inner schedulers come between
  them. It fails: asked for the inner schedulers 1, 2 and 1 again, the CatchScheduler
  returns three different wrappers.
\<close>

theorem wrapper_cache_counterexample:
  "[Inner 1, Inner 2, Inner 1] ! 0 = [Inner 1, Inner 2, Inner 1] ! 2
   \<and> lookups 0 [Inner 1, Inner 2, Inner 1] accept_all
       = [Some (Wrapper 1), Some (Wrapper 2), Some (Wrapper 3)]
   \<and> lookups 0 [Inner 1, Inner 2, Inner 1] accept_all ! 0
       \<noteq> lookups 0 [Inner 1, Inner 2, Inner 1] accept_all ! 2"
  by (simp add: getRecursiveWrapper_def clone_def accept_all_def CatchScheduler_init_def Let_def)

text \<open>
  Claim C5, amended. A CatchScheduler keeps the wrapper of the inner scheduler it was
  asked for last, and no other. After a lookup for an inner scheduler \<open>a\<close>, any number of
  further lookups for \<open>a\<close> that directly follow return the same wrapper as that lookup;
  a lookup for the inner scheduler that was asked for last creates nothing; a lookup for
  any other inner scheduler creates a new wrapper, which is no object that existed
  before, whether or not a wrapper had been made for that inner scheduler earlier.
\<close>

theorem wrapper_cache_last_only:
  assumes "self < length h"
  shows "lookups self (replicate n a) (snd (getRecursiveWrapper self a h))
           = replicate n (fst (getRecursiveWrapper self a h))
       \<and> (recursiveOriginal (h ! self) = Some a \<longrightarrow>
            getRecursiveWrapper self a h = (recursiveWrapper (h ! self), h))
       \<and> (recursiveOriginal (h ! self) \<noteq> Some a \<longrightarrow>
            fst (getRecursiveWrapper self a h) = Some (Wrapper (length h))
            \<and> length (snd (getRecursiveWrapper self a h)) = Suc (length h))"
proof -
  obtain w h1 where g: "getRecursiveWrapper self a h = (w, h1)"
    by (cases "getRecursiveWrapper self a h")
  from getRecursiveWrapper_length [OF g] assms have l: "self < length h1" by simp
  from getRecursiveWrapper_again [OF assms g] have "getRecursiveWrapper self a h1 = (w, h1)" .
  from lookups_same [OF l this] g
  have 1: "lookups self (replicate n a) (snd (getRecursiveWrapper self a h))
           = replicate n (fst (getRecursiveWrapper self a h))"
    by simp
  have 2: "recursiveOriginal (h ! self) = Some a \<longrightarrow>
            getRecursiveWrapper self a h = (recursiveWrapper (h ! self), h)"
    by (simp add: getRecursiveWrapper_def)
  have 3: "recursiveOriginal (h ! self) \<noteq> Some a \<longrightarrow>
            fst (getRecursiveWrapper self a h) = Some (Wrapper (length h))
            \<and> length (snd (getRecursiveWrapper self a h)) = Suc (length h)"
    using assms by (simp add: getRecursiveWrapper_def clone_def Let_def)
  from 1 2 3 show ?thesis by blast
qed

theorem wrapper_cache_last_only_witness:
  "(0::nat) < length accept_all
   \<and> lookups 0 [Inner 1, Inner 1, Inner 1] accept_all
       = [Some (Wrapper 1), Some (Wrapper 1), Some (Wrapper 1)]
   \<and> recursiveOriginal (accept_all ! 0) \<noteq> Some (Inner 1)
   \<and> fst (getRecursiveWrapper 0 (Inner 1) accept_all) = Some (Wrapper (length accept_all))"
proof -
  have l: "(0::nat) < length accept_all" by (simp add: accept_all_def)
  have o: "recursiveOriginal (accept_all ! 0) \<noteq> Some (Inner 1)"
    by (simp add: accept_all_def CatchScheduler_init_def)
  have f: "fst (getRecursiveWrapper 0 (Inner 1) accept_all) = Some (Wrapper 1)"
    by (simp add: getRecursiveWrapper_def clone_def accept_all_def CatchScheduler_init_def Let_def)
  have r: "replicate 2 (Some (Wrapper 1)) = [Some (Wrapper 1), Some (Wrapper 1)]"
    by (simp add: eval_nat_numeral)
  have "lookups 0 [Inner 1, Inner 1, Inner 1] accept_all
      = fst (getRecursiveWrapper 0 (Inner 1) accept_all)
        # lookups 0 (replicate 2 (Inner 1)) (snd (getRecursiveWrapper 0 (Inner 1) accept_all))"
    by (simp add: eval_nat_numeral split: prod.splits)
  with wrapper_cache_last_only [OF l, of 2 "Inner 1"] f r l o show ?thesis
    by (simp add: accept_all_def)
qed

text \<open>
  Claim C6. Under a CatchScheduler, a periodic tick whose action raises a fault that the
  handler accepts should set the failed flag, dispose the periodic handle and stop all
  later invocations. The code does not get there: every tick of the closure raises when
  it enters \<^verbatim>\<open>with failureLock\<close>, before the failed flag is read and before the user
  action is invoked, and leaves the flag and the handle as they were. With a lock in the
  place of \<open>failureLock\<close>, a tick whose action raises sets the failed flag and then raises
  an AttributeError for \<^verbatim>\<open>self.handler\<close>: the handler is not consulted and the handle is
  not disposed.
\<close>

theorem periodic_tick_raises:
  "periodic_tick self act st p = (Raise ContextManagerError, p)
   \<and> periodic_tick self (\<lambda>s. Raise (Fault k)) st periodic_start
       = (Raise ContextManagerError,
          \<lparr>failed = False, d_isDisposed = False, invocations = 0\<rparr>)
   \<and> scheduled RLock_object self (\<lambda>s. Raise (Fault k)) st periodic_start
       = (Raise (AttributeError ''handler''),
          \<lparr>failed = True, d_isDisposed = False, invocations = 1\<rparr>)"
  by (simp add: periodic_tick_def scheduled_def enter_with_def CatchScheduler_getattr_def
      periodic_start_def)

subsection \<open>CurrentThreadScheduler\<close>

text \<open>
  Claim C7. Scheduling an action A at due time 0 on the CurrentThreadScheduler, where A
  schedules B, should run A and then B. The code does not run A: \<^verbatim>\<open>schedule\<close> reaches
  \<^verbatim>\<open>_scheduleRelative\<close> with three arguments (state, due time, action) where the method
  declares two, and the call raises a TypeError. Called with the two arguments that it
  declares, the method raises a NameError for \<^verbatim>\<open>state\<close>; and every read of the queue
  property raises an AttributeError, so that neither a drain nor an enqueue can take
  place.
\<close>

theorem current_thread_schedule_raises:
  "CurrentThread_schedule now (PyFunction a) = Raise (TypeError ''_scheduleRelative'')
   \<and> CurrentThread_scheduleWithRelativeAndState now st (PyNumber 0) (PyFunction a)
       = Raise (TypeError ''_scheduleRelative'')
   \<and> CurrentThread_scheduleRelative now [PyNumber 0, PyFunction a] = Raise (NameError ''state'')
   \<and> queue_fget = Raise (AttributeError queue_attribute)
   \<and> CurrentThread_run = Raise (AttributeError queue_attribute)"
  by (simp add: CurrentThread_schedule_def CurrentThread_scheduleNow_def
      CurrentThread_scheduleWithRelativeAndState_def CurrentThread_scheduleRelative_def
      bind_params_def queue_fget_def threading_local_def CurrentThread_run_def)

subsection \<open>RecursiveScheduledFunction\<close>

text \<open>
  Claim C8. Disposing the group between the completion of a step and the execution of
  the next step should keep that step from invoking the action, however the race between
  registration and execution resolves. The code does not guarantee it, because \<open>isDone\<close>,
  \<open>isAdded\<close> and \<open>cancel\<close> are attributes of the one coordinator and not variables of
  each call of the continuation. In the execution \<open>overlapping\<close> of the chain 0, 1, 2 the
  callback of step 1 runs before thread 1 has stored and registered the token of step 1;
  the action of step 1 stores the token of step 2 in \<^verbatim>\<open>self.cancel\<close>, thread 1
  overwrites it with the token of step 1, and both registrations add the token of step 1.
  When the steps 0 and 1 have completed, step 2 is pending and its token is not in the
  group. The group is disposed then; a worker takes step 2 afterwards, finds its token
  not disposed, and the action is invoked with state 2. This is so whether or not
  \<^verbatim>\<open>remove\<close> disposes the token it takes out. (In the execution \<open>one_after_another\<close>
  the same disposal does keep step 2 from running.)
\<close>

theorem recursive_dispose_misses_pending_step:
  "map_option observe (exec chain remove_disposes overlapping all_idle)
     = Some (Idle, Idle, Idle, [0, 1], [(1, 2)], [0, 0], [])
   \<and> map_option observe
       (exec chain remove_disposes (overlapping @ [Dispose_group, Begin 3 1, Step 3, Step 3])
          all_idle)
     = Some (Idle, Idle, In_action [], [0, 1, 2], [], [], [0, 0])
   \<and> map_option (\<lambda>cfg. (fst cfg 3, ran (snd cfg), pending (snd cfg)))
       (exec chain remove_disposes (one_after_another @ [Dispose_group, Begin 3 1]) all_idle)
     = Some (Idle, [0, 1], [])"
  by (cases remove_disposes)
    (simp_all add: overlapping_def one_after_another_def all_idle_def observe_def step_def
      chain_def scheduleWithState_def group_add_def group_remove_def group_dispose_def
      actionCallback_isDone_def actionCallback_isAdded_def actionCallback_cancel_def
      actionCallback_locked_def schedulerCallback_locked_def run_action_def
      RecursiveScheduledFunction_init_def Let_def)

subsection \<open>Scheduler.normalize\<close>

text \<open>
  Claim C9. For every real input \<open>t\<close>, \<open>normalize_timeSpan t\<close> is 0 when \<open>t\<close> is negative and is
  \<open>t\<close> itself when \<open>t\<close> is non-negative; in particular \<open>normalize_timeSpan (-5) = 0\<close> and
  \<open>normalize_timeSpan 7 = 7\<close>.
\<close>

theorem normalize_clamps:
  "(t < 0 \<longrightarrow> normalize_timeSpan t = 0) \<and> (0 \<le> t \<longrightarrow> normalize_timeSpan t = t)
   \<and> normalize_timeSpan (- 5) = 0 \<and> normalize_timeSpan 7 = 7"
  by (simp add: normalize_timeSpan_def)

theorem normalize_clamps_witness:
  "(- 5 :: real) < 0 \<and> normalize_timeSpan (- 5) = 0 \<and> (0 :: real) \<le> 7 \<and> normalize_timeSpan 7 = 7"
  using normalize_clamps [of "- 5"] normalize_clamps [of 7] by simp

end
